theory Spec2Isabelle
  imports Main "HOL-Library.Word"
begin

section \<open>The IPC channel of simple-ipc-lib (src/ipc\_channel.h)\<close>

text \<open>
  The channel template \<^verbatim>\<open>Channel<TransportT, EncoderT, DecoderT>\<close> coordinates four
  collaborators: a transport, an encoder, a decoder and a dispatcher. Only the channel and
  its nested \<^verbatim>\<open>RxHandler\<close> are in the sources; the collaborators are template
  parameters, so the model takes each of them as a record of functions over a state of
  its own, threaded explicitly.

  Machine types: a C \<^verbatim>\<open>int\<close> is a 32-bit word in two's complement (\<open>-1\<close> is the
  all-ones word), \<^verbatim>\<open>size_t\<close> is a 32-bit word (the negative return values of the
  channel are the topmost values of that type; nothing below depends on the width), a
  \<^verbatim>\<open>char\<close> is an 8-bit word and a \<^verbatim>\<open>wchar_t\<close> a 16-bit word. The number of
  elements of a vector is a natural number.
\<close>

subsection \<open>Wire types (ipc\_wire\_types.h, not among the sources)\<close>

type_synonym c_int = "32 word"
type_synonym size_t = "32 word"
type_synonym bits = "32 word"
type_synonym string8 = "8 word list"
type_synonym string16 = "16 word list"

text \<open>
  Modelled from the spec: the type ids of \<^verbatim>\<open>ipc_wire_types.h\<close>, which is not among the
  sources. The channel names twelve enumerators; a type id travels as an \<^verbatim>\<open>int\<close>, so
  every other integer is a type id too (\<open>TYPE_OTHER\<close>), and it is what the
  \<^verbatim>\<open>default\<close> branch of each switch of the channel receives. The numeric values of
  the enumerators are not needed: case labels of one switch are pairwise different.
\<close>

datatype type_id =
    TYPE_NONE
  | TYPE_INT32
  | TYPE_UINT32
  | TYPE_CHAR8
  | TYPE_CHAR16
  | TYPE_STRING8
  | TYPE_STRING16
  | TYPE_NULLSTRING8
  | TYPE_NULLSTRING16
  | TYPE_BARRAY
  | TYPE_UNIX_FD
  | TYPE_WIN_HANDLE
  | TYPE_OTHER int

text \<open>
  Modelled from the spec: the class \<^verbatim>\<open>WireType\<close> of \<^verbatim>\<open>ipc_wire_types.h\<close>, a closed
  tagged variant with one constructor per source type. A string-8 and a string-16 are
  built from a C string (a pointer to characters up to the first zero), a byte array from
  a length and a buffer.
\<close>

datatype WireType =
    WireNone
  | WireInt32 "32 word"
  | WireUInt32 "32 word"
  | WireChar8 "8 word"
  | WireChar16 "16 word"
  | WireNullString8
  | WireNullString16
  | WireString8 string8
  | WireByteArray string8
  | WireString16 string16
  | WireUnixFd c_int
  | WireWinHandle "32 word"

text \<open>Modelled from the spec: \<^verbatim>\<open>WireType::Id()\<close>, the active tag.\<close>

fun WireType_Id :: "WireType \<Rightarrow> type_id" where
  "WireType_Id WireNone = TYPE_NONE"
| "WireType_Id (WireInt32 v) = TYPE_INT32"
| "WireType_Id (WireUInt32 v) = TYPE_UINT32"
| "WireType_Id (WireChar8 c) = TYPE_CHAR8"
| "WireType_Id (WireChar16 c) = TYPE_CHAR16"
| "WireType_Id WireNullString8 = TYPE_NULLSTRING8"
| "WireType_Id WireNullString16 = TYPE_NULLSTRING16"
| "WireType_Id (WireString8 s) = TYPE_STRING8"
| "WireType_Id (WireByteArray b) = TYPE_BARRAY"
| "WireType_Id (WireString16 s) = TYPE_STRING16"
| "WireType_Id (WireUnixFd fd) = TYPE_UNIX_FD"
| "WireType_Id (WireWinHandle h) = TYPE_WIN_HANDLE"

text \<open>
  Modelled from the spec: \<^verbatim>\<open>WireType::GetAsBits()\<close>, the raw-bits accessor of the
  fixed-width scalar tags. The pointer it returns is modelled by the 32-bit word stored
  at that address, least significant byte first, so that reading a \<^verbatim>\<open>char\<close> or a
  \<^verbatim>\<open>wchar_t\<close> through the pointer takes the low bits. The channel also calls it on
  the two null-string tags, whose bits nobody reads.
\<close>

fun GetAsBits :: "WireType \<Rightarrow> bits" where
  "GetAsBits (WireInt32 v) = v"
| "GetAsBits (WireUInt32 v) = v"
| "GetAsBits (WireChar8 c) = ucast c"
| "GetAsBits (WireChar16 c) = ucast c"
| "GetAsBits w = 0"

text \<open>
  Modelled from the spec: \<^verbatim>\<open>GetString8\<close> and \<^verbatim>\<open>GetString16\<close> copy the payload of a
  string or byte-array value into an owned string; \<^verbatim>\<open>GetUnixFD\<close> and
  \<^verbatim>\<open>GetWinHandle\<close> read a descriptor and a handle.
\<close>

fun GetString8 :: "WireType \<Rightarrow> string8" where
  "GetString8 (WireString8 s) = s"
| "GetString8 (WireByteArray b) = b"
| "GetString8 w = []"

fun GetString16 :: "WireType \<Rightarrow> string16" where
  "GetString16 (WireString16 s) = s"
| "GetString16 w = []"

fun GetUnixFD :: "WireType \<Rightarrow> c_int" where
  "GetUnixFD (WireUnixFd fd) = fd"
| "GetUnixFD w = 0"

fun GetWinHandle :: "WireType \<Rightarrow> 32 word" where
  "GetWinHandle (WireWinHandle h) = h"
| "GetWinHandle w = 0"

text \<open>
  \<^verbatim>\<open>std::basic_string::c_str()\<close> handed to a constructor that takes a character
  pointer: the characters up to the first zero.
\<close>

definition c_str :: "'a::len word list \<Rightarrow> 'a word list" where
  "c_str s = takeWhile (\<lambda>c. c \<noteq> 0) s"

subsection \<open>Outcomes\<close>

text \<open>
  A call of the model returns a value, runs out of fuel (the receive loop has no bound of
  its own) or leaves defined behaviour (an unchecked read outside a vector).
\<close>

datatype 'r outcome = Returned 'r | OutOfFuel | UndefinedBehaviour

subsection \<open>Channel::RxHandler\<close>

text \<open>
  The fields \<^verbatim>\<open>list_\<close> and \<^verbatim>\<open>msg_id_\<close> (a trailing underscore is not a name
  here).
\<close>

record RxHandler =
  rx_list :: "WireType list"
  rx_msg_id :: c_int

text \<open>The constructor \<^verbatim>\<open>RxHandler() : msg_id_(-1) {}\<close>.\<close>

definition RxHandler_init :: RxHandler where
  "RxHandler_init = \<lparr>rx_list = [], rx_msg_id = - 1\<rparr>"

definition push_back :: "WireType \<Rightarrow> RxHandler \<Rightarrow> RxHandler" where
  "push_back w h = h\<lparr>rx_list := rx_list h @ [w]\<rparr>"

text \<open>
  \<^verbatim>\<open>list_.reserve(n_args)\<close> changes the capacity of the vector and none of its
  elements. Allocation failure is outside the model, here and in \<^verbatim>\<open>push_back\<close>.
\<close>

definition OnMessageStart :: "c_int \<Rightarrow> c_int \<Rightarrow> RxHandler \<Rightarrow> bool \<times> RxHandler" where
  "OnMessageStart mid n_args h = (True, h\<lparr>rx_msg_id := mid\<rparr>)"

text \<open>
  Modelled from the spec: the constructors of \<^verbatim>\<open>WireType\<close> the callbacks use, which
  \<^verbatim>\<open>ipc_wire_types.h\<close> declares. A value built from an \<^verbatim>\<open>int\<close>, an
  \<^verbatim>\<open>unsigned int\<close>, a \<^verbatim>\<open>char\<close> or a \<^verbatim>\<open>wchar_t\<close> has the tag of that type; one
  built from a null \<^verbatim>\<open>char*\<close> or \<^verbatim>\<open>wchar_t*\<close> is the null string of that width
  (section 4.1 of the spec); one built from \<^verbatim>\<open>c_str()\<close> is a string, and one built
  from a \<^verbatim>\<open>ByteArray\<close> a byte array. The callbacks read the bits through a pointer
  cast to the type they build.
\<close>

fun OnWord :: "bits \<Rightarrow> type_id \<Rightarrow> RxHandler \<Rightarrow> bool \<times> RxHandler" where
  "OnWord b TYPE_INT32 h = (True, push_back (WireInt32 b) h)"
| "OnWord b TYPE_UINT32 h = (True, push_back (WireUInt32 b) h)"
| "OnWord b TYPE_CHAR8 h = (True, push_back (WireChar8 (ucast b)) h)"
| "OnWord b TYPE_CHAR16 h = (True, push_back (WireChar16 (ucast b)) h)"
| "OnWord b TYPE_NULLSTRING8 h = (True, push_back WireNullString8 h)"
| "OnWord b TYPE_NULLSTRING16 h = (True, push_back WireNullString16 h)"
| "OnWord b t h = (False, h)"

fun OnString8 :: "string8 \<Rightarrow> type_id \<Rightarrow> RxHandler \<Rightarrow> bool \<times> RxHandler" where
  "OnString8 str TYPE_STRING8 h = (True, push_back (WireString8 (c_str str)) h)"
| "OnString8 str TYPE_BARRAY h = (True, push_back (WireByteArray str) h)"
| "OnString8 str t h = (False, h)"

fun OnString16 :: "string16 \<Rightarrow> type_id \<Rightarrow> RxHandler \<Rightarrow> bool \<times> RxHandler" where
  "OnString16 str TYPE_STRING16 h = (True, push_back (WireString16 (c_str str)) h)"
| "OnString16 str t h = (False, h)"

definition MsgId :: "RxHandler \<Rightarrow> c_int" where
  "MsgId h = rx_msg_id h"

definition GetArgCount :: "RxHandler \<Rightarrow> nat" where
  "GetArgCount h = length (rx_list h)"

text \<open>
  \<^verbatim>\<open>GetArg(ix)\<close> is \<^verbatim>\<open>list_[ix]\<close>: \<^verbatim>\<open>std::vector::operator[]\<close> compares nothing,
  and an index that is not below the size has no defined result.
\<close>

definition GetArg :: "RxHandler \<Rightarrow> nat \<Rightarrow> WireType outcome" where
  "GetArg h ix = (if ix < length (rx_list h) then Returned (rx_list h ! ix) else UndefinedBehaviour)"

subsection \<open>The collaborators: encoder and transport\<close>

text \<open>
  The encoder the channel requires (the header comment of \<^verbatim>\<open>ipc_channel.h\<close>), over
  its own state \<open>'e\<close>: each member takes the state and returns it updated, next to its
  result. \<open>Enc_new\<close> is the default constructor. A buffer, the pointer with its size,
  is a value of \<open>'b\<close>; \<^verbatim>\<open>GetBuffer\<close> returning a null pointer is \<open>None\<close>.
\<close>

record ('b, 'e) EncoderT =
  Enc_new :: 'e
  Enc_Open :: "c_int \<Rightarrow> 'e \<Rightarrow> bool \<times> 'e"
  Enc_Close :: "'e \<Rightarrow> bool \<times> 'e"
  Enc_SetMsgId :: "c_int \<Rightarrow> 'e \<Rightarrow> 'e"
  Enc_OnWord :: "bits \<Rightarrow> type_id \<Rightarrow> 'e \<Rightarrow> bool \<times> 'e"
  Enc_OnString8 :: "string8 \<Rightarrow> type_id \<Rightarrow> 'e \<Rightarrow> bool \<times> 'e"
  Enc_OnString16 :: "string16 \<Rightarrow> type_id \<Rightarrow> 'e \<Rightarrow> bool \<times> 'e"
  Enc_OnUnixFd :: "c_int \<Rightarrow> type_id \<Rightarrow> 'e \<Rightarrow> bool \<times> 'e"
  Enc_OnWinHandle :: "32 word \<Rightarrow> type_id \<Rightarrow> 'e \<Rightarrow> bool \<times> 'e"
  Enc_GetBuffer :: "'e \<Rightarrow> 'b option \<times> 'e"

text \<open>
  The transport, over its own state \<open>'t\<close>. \<^verbatim>\<open>Receive\<close> returning a null pointer is
  \<open>None\<close>.
\<close>

record ('b, 't) TransportT =
  Tr_Send :: "'b \<Rightarrow> 't \<Rightarrow> size_t \<times> 't"
  Tr_Receive :: "'t \<Rightarrow> 'b option \<times> 't"

subsection \<open>Channel::AddMsgElement and Channel::Send\<close>

definition AddMsgElement :: "('b, 'e) EncoderT \<Rightarrow> WireType \<Rightarrow> 'e \<Rightarrow> bool \<times> 'e" where
  "AddMsgElement encoder wtype e =
     (case WireType_Id wtype of
        TYPE_NONE \<Rightarrow> (False, e)
      | TYPE_INT32 \<Rightarrow> Enc_OnWord encoder (GetAsBits wtype) (WireType_Id wtype) e
      | TYPE_UINT32 \<Rightarrow> Enc_OnWord encoder (GetAsBits wtype) (WireType_Id wtype) e
      | TYPE_CHAR8 \<Rightarrow> Enc_OnWord encoder (GetAsBits wtype) (WireType_Id wtype) e
      | TYPE_CHAR16 \<Rightarrow> Enc_OnWord encoder (GetAsBits wtype) (WireType_Id wtype) e
      | TYPE_STRING8 \<Rightarrow> Enc_OnString8 encoder (GetString8 wtype) (WireType_Id wtype) e
      | TYPE_BARRAY \<Rightarrow> Enc_OnString8 encoder (GetString8 wtype) (WireType_Id wtype) e
      | TYPE_STRING16 \<Rightarrow> Enc_OnString16 encoder (GetString16 wtype) (WireType_Id wtype) e
      | TYPE_NULLSTRING8 \<Rightarrow> Enc_OnWord encoder (GetAsBits wtype) (WireType_Id wtype) e
      | TYPE_NULLSTRING16 \<Rightarrow> Enc_OnWord encoder (GetAsBits wtype) (WireType_Id wtype) e
      | TYPE_UNIX_FD \<Rightarrow> Enc_OnUnixFd encoder (GetUnixFD wtype) (WireType_Id wtype) e
      | TYPE_WIN_HANDLE \<Rightarrow> Enc_OnWinHandle encoder (GetWinHandle wtype) (WireType_Id wtype) e
      | TYPE_OTHER n \<Rightarrow> (False, e))"

text \<open>
  The loop of \<^verbatim>\<open>Send\<close> over the arguments:
  \<^verbatim>\<open>for (int ix = 0; ix != n_args; ++ix) AddMsgElement(&encoder, *args[ix]);\<close>
  The value \<^verbatim>\<open>AddMsgElement\<close> returns is not read.
\<close>

fun add_elements :: "('b, 'e) EncoderT \<Rightarrow> WireType list \<Rightarrow> 'e \<Rightarrow> 'e" where
  "add_elements encoder [] e = e"
| "add_elements encoder (a # as) e = add_elements encoder as (snd (AddMsgElement encoder a e))"

text \<open>
  \<^verbatim>\<open>Send(msg_id, args, n_args)\<close>. The array \<^verbatim>\<open>args\<close> with its count \<^verbatim>\<open>n_args\<close> is
  the list \<open>args\<close>, and \<^verbatim>\<open>n_args\<close> its length. The encoder is a local of the call;
  the model returns its last state beside the result and the state of the transport, so
  that what the encoder was asked can be read off.
\<close>

definition Send ::
  "('b, 't) TransportT \<Rightarrow> ('b, 'e) EncoderT \<Rightarrow> c_int \<Rightarrow> WireType list \<Rightarrow> 't \<Rightarrow> size_t \<times> 't \<times> 'e" where
  "Send transport encoder msg_id args t =
     (let e1 = snd (Enc_Open encoder (of_nat (length args)) (Enc_new encoder));
          e2 = add_elements encoder args e1;
          e3 = Enc_SetMsgId encoder msg_id e2
      in case Enc_Close encoder e3 of
           (False, e4) \<Rightarrow> (- 1, t, e4)
         | (True, e4) \<Rightarrow>
             (case Enc_GetBuffer encoder e4 of
                (None, e5) \<Rightarrow> (- 2, t, e5)
              | (Some buf, e5) \<Rightarrow>
                  (case Tr_Send transport buf t of (r, t') \<Rightarrow> (r, t', e5))))"

subsection \<open>The collaborators: decoder and dispatcher\<close>

text \<open>
  The decoder holds a pointer to the \<^verbatim>\<open>RxHandler\<close> and reaches it through the four
  callbacks only. One call of \<^verbatim>\<open>OnData\<close> is therefore a tree: the decoder either
  returns (its result and its new state), or makes one callback and goes on according to
  what the callback returned.
\<close>

datatype rx_call =
    Cb_OnMessageStart c_int c_int
  | Cb_OnWord bits type_id
  | Cb_OnString8 string8 type_id
  | Cb_OnString16 string16 type_id

datatype 'd feed = Fed bool 'd | Callback rx_call "bool \<Rightarrow> 'd feed"

record ('b, 'd) DecoderT =
  Dec_new :: 'd
  Dec_OnData :: "'b option \<Rightarrow> 'd \<Rightarrow> 'd feed"
  Dec_Success :: "'d \<Rightarrow> bool"

fun rx_apply :: "rx_call \<Rightarrow> RxHandler \<Rightarrow> bool \<times> RxHandler" where
  "rx_apply (Cb_OnMessageStart mid n_args) h = OnMessageStart mid n_args h"
| "rx_apply (Cb_OnWord b t) h = OnWord b t h"
| "rx_apply (Cb_OnString8 str t) h = OnString8 str t h"
| "rx_apply (Cb_OnString16 str t) h = OnString16 str t h"

text \<open>One call of \<^verbatim>\<open>OnData\<close> run against the handler, and the callbacks it makes.\<close>

primrec run_feed :: "'d feed \<Rightarrow> RxHandler \<Rightarrow> bool \<times> 'd \<times> RxHandler" where
  "run_feed (Fed again d) h = (again, d, h)"
| "run_feed (Callback c k) h = run_feed (k (fst (rx_apply c h))) (snd (rx_apply c h))"

primrec feed_calls :: "'d feed \<Rightarrow> RxHandler \<Rightarrow> rx_call list" where
  "feed_calls (Fed again d) h = []"
| "feed_calls (Callback c k) h = c # feed_calls (k (fst (rx_apply c h))) (snd (rx_apply c h))"

text \<open>
  The dispatcher, over its own state \<open>'s\<close>: \<^verbatim>\<open>MsgHandler(id)\<close> returns a handler
  (\<open>'h\<close>) or a null pointer, and \<^verbatim>\<open>OnMsgIn\<close> is called on the handler it returned.
  The channel pointer handed to \<^verbatim>\<open>OnMsgIn\<close> is left out.
\<close>

record ('h, 's) DispatchT =
  MsgHandler :: "c_int \<Rightarrow> 's \<Rightarrow> 'h option \<times> 's"
  OnMsgIn :: "'h \<Rightarrow> c_int \<Rightarrow> WireType list \<Rightarrow> nat \<Rightarrow> 's \<Rightarrow> size_t \<times> 's"

subsection \<open>Channel::Receive\<close>

definition kMaxNumArgs :: nat where
  "kMaxNumArgs = 8"

text \<open>
  The loop \<^verbatim>\<open>do { buf = transport_->Receive(&received); } while (decoder.OnData(buf, received));\<close>
  has no bound: the model counts the rounds down from \<open>fuel\<close>, and \<open>None\<close> is a loop
  still running when the fuel is used up.
\<close>

fun pump ::
  "nat \<Rightarrow> ('b, 't) TransportT \<Rightarrow> ('b, 'd) DecoderT \<Rightarrow> 'd \<Rightarrow> RxHandler \<Rightarrow> 't \<Rightarrow> ('d \<times> RxHandler \<times> 't) option" where
  "pump 0 transport decoder d h t = None"
| "pump (Suc fuel) transport decoder d h t =
     (case Tr_Receive transport t of
        (buf, t') \<Rightarrow>
          (case run_feed (Dec_OnData decoder buf d) h of
             (again, d', h') \<Rightarrow>
               if again then pump fuel transport decoder d' h' t' else Some (d', h', t')))"

text \<open>The callbacks the decoder makes during that loop, in order.\<close>

fun pump_calls ::
  "nat \<Rightarrow> ('b, 't) TransportT \<Rightarrow> ('b, 'd) DecoderT \<Rightarrow> 'd \<Rightarrow> RxHandler \<Rightarrow> 't \<Rightarrow> rx_call list" where
  "pump_calls 0 transport decoder d h t = []"
| "pump_calls (Suc fuel) transport decoder d h t =
     (case Tr_Receive transport t of
        (buf, t') \<Rightarrow>
          feed_calls (Dec_OnData decoder buf d) h @
          (case run_feed (Dec_OnData decoder buf d) h of
             (again, d', h') \<Rightarrow>
               if again then pump_calls fuel transport decoder d' h' t' else []))"

text \<open>
  The loop \<^verbatim>\<open>for (size_t ix = 0; ix != np; ++ix) args[ix] = &handler.GetArg(ix);\<close>
  over the indices it visits.
\<close>

fun args_loop :: "RxHandler \<Rightarrow> nat list \<Rightarrow> WireType list outcome" where
  "args_loop h [] = Returned []"
| "args_loop h (ix # ixs) =
     (case GetArg h ix of
        Returned a \<Rightarrow>
          (case args_loop h ixs of
             Returned as \<Rightarrow> Returned (a # as)
           | OutOfFuel \<Rightarrow> OutOfFuel
           | UndefinedBehaviour \<Rightarrow> UndefinedBehaviour)
      | OutOfFuel \<Rightarrow> OutOfFuel
      | UndefinedBehaviour \<Rightarrow> UndefinedBehaviour)"

text \<open>
  \<^verbatim>\<open>Receive(top_dispatch)\<close>: the result, with the states of the transport and of the
  dispatcher after the call.
\<close>

definition Receive ::
  "nat \<Rightarrow> ('b, 't) TransportT \<Rightarrow> ('b, 'd) DecoderT \<Rightarrow> ('h, 's) DispatchT \<Rightarrow> 't \<Rightarrow> 's \<Rightarrow> (size_t \<times> 't \<times> 's) outcome" where
  "Receive fuel transport decoder top_dispatch t s =
     (case pump fuel transport decoder (Dec_new decoder) RxHandler_init t of
        None \<Rightarrow> OutOfFuel
      | Some (d, handler, t') \<Rightarrow>
          if \<not> Dec_Success decoder d then Returned (- 1, t', s)
          else
            let np = GetArgCount handler in
            if np > kMaxNumArgs then Returned (- 2, t', s)
            else
              (case args_loop handler [0..<np] of
                 Returned args \<Rightarrow>
                   (case MsgHandler top_dispatch (MsgId handler) s of
                      (None, s') \<Rightarrow> Returned (- 3, t', s')
                    | (Some dispatch, s') \<Rightarrow>
                        (case OnMsgIn top_dispatch dispatch (MsgId handler) args np s' of
                           (r, s'') \<Rightarrow> Returned (r, t', s'')))
               | OutOfFuel \<Rightarrow> OutOfFuel
               | UndefinedBehaviour \<Rightarrow> UndefinedBehaviour))"

subsection \<open>Observing the collaborators\<close>

text \<open>
  What the channel asks of an encoder is read off a log: \<open>logged encoder\<close> behaves as
  \<open>encoder\<close> does and appends every call it receives to a list kept beside the state.
\<close>

datatype enc_call =
    Call_Open c_int
  | Call_OnWord bits type_id
  | Call_OnString8 string8 type_id
  | Call_OnString16 string16 type_id
  | Call_OnUnixFd c_int type_id
  | Call_OnWinHandle "32 word" type_id
  | Call_SetMsgId c_int
  | Call_Close
  | Call_GetBuffer

definition noted :: "'c \<Rightarrow> 'r \<times> 'e \<Rightarrow> 'c list \<Rightarrow> 'r \<times> 'e \<times> 'c list" where
  "noted c r log = (fst r, snd r, log @ [c])"

definition logged :: "('b, 'e) EncoderT \<Rightarrow> ('b, 'e \<times> enc_call list) EncoderT" where
  "logged encoder =
     \<lparr>Enc_new = (Enc_new encoder, []),
      Enc_Open = (\<lambda>n el. noted (Call_Open n) (Enc_Open encoder n (fst el)) (snd el)),
      Enc_Close = (\<lambda>el. noted Call_Close (Enc_Close encoder (fst el)) (snd el)),
      Enc_SetMsgId = (\<lambda>mid el. (Enc_SetMsgId encoder mid (fst el), snd el @ [Call_SetMsgId mid])),
      Enc_OnWord = (\<lambda>b tid el. noted (Call_OnWord b tid) (Enc_OnWord encoder b tid (fst el)) (snd el)),
      Enc_OnString8 = (\<lambda>str tid el. noted (Call_OnString8 str tid) (Enc_OnString8 encoder str tid (fst el)) (snd el)),
      Enc_OnString16 = (\<lambda>str tid el. noted (Call_OnString16 str tid) (Enc_OnString16 encoder str tid (fst el)) (snd el)),
      Enc_OnUnixFd = (\<lambda>fd tid el. noted (Call_OnUnixFd fd tid) (Enc_OnUnixFd encoder fd tid (fst el)) (snd el)),
      Enc_OnWinHandle = (\<lambda>hnd tid el. noted (Call_OnWinHandle hnd tid) (Enc_OnWinHandle encoder hnd tid (fst el)) (snd el)),
      Enc_GetBuffer = (\<lambda>el. noted Call_GetBuffer (Enc_GetBuffer encoder (fst el)) (snd el))\<rparr>"

text \<open>
  The encoder call the spec expects for one argument (section 4.5: dispatch on the tag to
  the matching \<open>on_*\<close> call); the none tag has none.
\<close>

fun element_calls :: "WireType \<Rightarrow> enc_call list" where
  "element_calls WireNone = []"
| "element_calls (WireInt32 v) = [Call_OnWord v TYPE_INT32]"
| "element_calls (WireUInt32 v) = [Call_OnWord v TYPE_UINT32]"
| "element_calls (WireChar8 c) = [Call_OnWord (ucast c) TYPE_CHAR8]"
| "element_calls (WireChar16 c) = [Call_OnWord (ucast c) TYPE_CHAR16]"
| "element_calls WireNullString8 = [Call_OnWord 0 TYPE_NULLSTRING8]"
| "element_calls WireNullString16 = [Call_OnWord 0 TYPE_NULLSTRING16]"
| "element_calls (WireString8 s) = [Call_OnString8 s TYPE_STRING8]"
| "element_calls (WireByteArray b) = [Call_OnString8 b TYPE_BARRAY]"
| "element_calls (WireString16 s) = [Call_OnString16 s TYPE_STRING16]"
| "element_calls (WireUnixFd fd) = [Call_OnUnixFd fd TYPE_UNIX_FD]"
| "element_calls (WireWinHandle hnd) = [Call_OnWinHandle hnd TYPE_WIN_HANDLE]"

text \<open>The same for a dispatcher: \<open>logged_dispatch\<close> notes every call beside the state.\<close>

datatype 'h disp_call =
    Call_MsgHandler c_int
  | Call_OnMsgIn 'h c_int "WireType list" nat

definition logged_dispatch :: "('h, 's) DispatchT \<Rightarrow> ('h, 's \<times> 'h disp_call list) DispatchT" where
  "logged_dispatch top_dispatch =
     \<lparr>MsgHandler = (\<lambda>mid sl. noted (Call_MsgHandler mid) (MsgHandler top_dispatch mid (fst sl)) (snd sl)),
      OnMsgIn = (\<lambda>dispatch mid args np sl.
        noted (Call_OnMsgIn dispatch mid args np) (OnMsgIn top_dispatch dispatch mid args np (fst sl)) (snd sl))\<rparr>"

text \<open>
  The last two lines of \<^verbatim>\<open>Receive\<close> on their own: resolve the handler of a message id
  and hand it the arguments, or return \<open>-3\<close>.
\<close>

definition resolve_and_dispatch ::
  "('h, 's) DispatchT \<Rightarrow> c_int \<Rightarrow> WireType list \<Rightarrow> 't \<Rightarrow> 's \<Rightarrow> (size_t \<times> 't \<times> 's) outcome" where
  "resolve_and_dispatch top_dispatch mid args t s =
     (case MsgHandler top_dispatch mid s of
        (None, s') \<Rightarrow> Returned (- 3, t, s')
      | (Some dispatch, s') \<Rightarrow>
          (case OnMsgIn top_dispatch dispatch mid args (length args) s' of
             (r, s'') \<Rightarrow> Returned (r, t, s'')))"

text \<open>The handler state a list of callbacks leaves, whatever each of them returns.\<close>

fun apply_calls :: "rx_call list \<Rightarrow> RxHandler \<Rightarrow> RxHandler" where
  "apply_calls [] h = h"
| "apply_calls (c # cs) h = apply_calls cs (snd (rx_apply c h))"

fun is_start :: "rx_call \<Rightarrow> bool" where
  "is_start (Cb_OnMessageStart mid n_args) = True"
| "is_start c = False"

subsection \<open>A reference encoder and decoder, a loopback transport, a dispatcher\<close>

text \<open>
  Modelled from the spec: the concrete encoder and decoder are not among the sources, and
  the spec leaves the byte layout to them (section 6). The reference pair keeps a frame
  structured: the message id, the count given to \<^verbatim>\<open>Open\<close>, and one element per
  \<open>on_*\<close> call the encoder received, in order (sections 4.2 and 4.3). The encoder accepts
  every call. The decoder takes the frame in one chunk, calls \<^verbatim>\<open>OnMessageStart\<close> and
  then one callback per element, and fails as soon as a callback returns false; a
  descriptor or a handle has no callback on the handler, so the decoder fails there; a
  null chunk is a failure too.
\<close>

datatype element =
    El_Word bits type_id
  | El_String8 string8 type_id
  | El_String16 string16 type_id
  | El_UnixFd c_int type_id
  | El_WinHandle "32 word" type_id

record frame =
  fr_msg_id :: c_int
  fr_n_args :: c_int
  fr_elements :: "element list"

definition add_element :: "element \<Rightarrow> frame \<Rightarrow> bool \<times> frame" where
  "add_element el fr = (True, fr\<lparr>fr_elements := fr_elements fr @ [el]\<rparr>)"

definition ref_encoder :: "(frame, frame) EncoderT" where
  "ref_encoder =
     \<lparr>Enc_new = \<lparr>fr_msg_id = 0, fr_n_args = 0, fr_elements = []\<rparr>,
      Enc_Open = (\<lambda>n fr. (True, \<lparr>fr_msg_id = 0, fr_n_args = n, fr_elements = []\<rparr>)),
      Enc_Close = (\<lambda>fr. (True, fr)),
      Enc_SetMsgId = (\<lambda>mid fr. fr\<lparr>fr_msg_id := mid\<rparr>),
      Enc_OnWord = (\<lambda>b tid. add_element (El_Word b tid)),
      Enc_OnString8 = (\<lambda>str tid. add_element (El_String8 str tid)),
      Enc_OnString16 = (\<lambda>str tid. add_element (El_String16 str tid)),
      Enc_OnUnixFd = (\<lambda>fd tid. add_element (El_UnixFd fd tid)),
      Enc_OnWinHandle = (\<lambda>hnd tid. add_element (El_WinHandle hnd tid)),
      Enc_GetBuffer = (\<lambda>fr. (Some fr, fr))\<rparr>"

datatype ref_decoder_state = Dec_Waiting | Dec_Done | Dec_Failed

fun feed_elements :: "element list \<Rightarrow> ref_decoder_state feed" where
  "feed_elements [] = Fed False Dec_Done"
| "feed_elements (El_Word b tid # els) =
     Callback (Cb_OnWord b tid) (\<lambda>ok. if ok then feed_elements els else Fed False Dec_Failed)"
| "feed_elements (El_String8 str tid # els) =
     Callback (Cb_OnString8 str tid) (\<lambda>ok. if ok then feed_elements els else Fed False Dec_Failed)"
| "feed_elements (El_String16 str tid # els) =
     Callback (Cb_OnString16 str tid) (\<lambda>ok. if ok then feed_elements els else Fed False Dec_Failed)"
| "feed_elements (El_UnixFd fd tid # els) = Fed False Dec_Failed"
| "feed_elements (El_WinHandle hnd tid # els) = Fed False Dec_Failed"

definition ref_decoder :: "(frame, ref_decoder_state) DecoderT" where
  "ref_decoder =
     \<lparr>Dec_new = Dec_Waiting,
      Dec_OnData = (\<lambda>buf d.
        case buf of
          None \<Rightarrow> Fed False Dec_Failed
        | Some fr \<Rightarrow>
            Callback (Cb_OnMessageStart (fr_msg_id fr) (fr_n_args fr))
              (\<lambda>ok. if ok then feed_elements (fr_elements fr) else Fed False Dec_Failed)),
      Dec_Success = (\<lambda>d. d = Dec_Done)\<rparr>"

text \<open>
  A transport that hands back what it was given: its state is the queue of the buffers in
  flight, and a send reports \<open>sz buf\<close> bytes written.
\<close>

definition loopback :: "('b \<Rightarrow> size_t) \<Rightarrow> ('b, 'b list) TransportT" where
  "loopback sz =
     \<lparr>Tr_Send = (\<lambda>buf q. (sz buf, q @ [buf])),
      Tr_Receive = (\<lambda>q. case q of [] \<Rightarrow> (None, []) | buf # q' \<Rightarrow> (Some buf, q'))\<rparr>"

text \<open>
  A dispatcher with one handler, registered for the message id \<open>k\<close>: the handler returns
  the number of arguments it was given, and the state counts its invocations.
\<close>

definition single_dispatch :: "c_int \<Rightarrow> (c_int, nat) DispatchT" where
  "single_dispatch k =
     \<lparr>MsgHandler = (\<lambda>mid s. (if mid = k then Some k else None, s)),
      OnMsgIn = (\<lambda>dispatch mid args np s. (of_nat np, Suc s))\<rparr>"

text \<open>
  The values the receive side can rebuild: the nine tags the callbacks of the handler
  construct, a string being a C string (no zero character inside).
\<close>

fun receivable :: "WireType \<Rightarrow> bool" where
  "receivable WireNone = False"
| "receivable (WireInt32 v) = True"
| "receivable (WireUInt32 v) = True"
| "receivable (WireChar8 c) = True"
| "receivable (WireChar16 c) = True"
| "receivable WireNullString8 = True"
| "receivable WireNullString16 = True"
| "receivable (WireString8 s) = (0 \<notin> set s)"
| "receivable (WireByteArray b) = True"
| "receivable (WireString16 s) = (0 \<notin> set s)"
| "receivable (WireUnixFd fd) = False"
| "receivable (WireWinHandle hnd) = False"

text \<open>
  A size for the frames of the reference encoder, so that a send reports a number of
  bytes: eight for the header and eight per element.
\<close>

definition frame_size :: "frame \<Rightarrow> size_t" where
  "frame_size fr = 8 + 8 * of_nat (length (fr_elements fr))"

text \<open>The element the reference encoder stores for one argument (none for the none tag).\<close>

fun ref_elements :: "WireType \<Rightarrow> element list" where
  "ref_elements WireNone = []"
| "ref_elements (WireInt32 v) = [El_Word v TYPE_INT32]"
| "ref_elements (WireUInt32 v) = [El_Word v TYPE_UINT32]"
| "ref_elements (WireChar8 c) = [El_Word (ucast c) TYPE_CHAR8]"
| "ref_elements (WireChar16 c) = [El_Word (ucast c) TYPE_CHAR16]"
| "ref_elements WireNullString8 = [El_Word 0 TYPE_NULLSTRING8]"
| "ref_elements WireNullString16 = [El_Word 0 TYPE_NULLSTRING16]"
| "ref_elements (WireString8 s) = [El_String8 s TYPE_STRING8]"
| "ref_elements (WireByteArray b) = [El_String8 b TYPE_BARRAY]"
| "ref_elements (WireString16 s) = [El_String16 s TYPE_STRING16]"
| "ref_elements (WireUnixFd fd) = [El_UnixFd fd TYPE_UNIX_FD]"
| "ref_elements (WireWinHandle hnd) = [El_WinHandle hnd TYPE_WIN_HANDLE]"

text \<open>
  An encoder that refuses: \<^verbatim>\<open>Open\<close> and \<^verbatim>\<open>OnWord\<close> return false and store nothing;
  the other members are those of the reference encoder.
\<close>

definition refusing_encoder :: "(frame, frame) EncoderT" where
  "refusing_encoder =
     ref_encoder\<lparr>Enc_Open := (\<lambda>n fr. (False, fr)), Enc_OnWord := (\<lambda>b tid fr. (False, fr))\<rparr>"

text \<open>
  The state of the encoder when \<^verbatim>\<open>Send\<close> calls \<^verbatim>\<open>Close\<close>: constructed, opened,
  every argument added, the message id set.
\<close>

definition encoded :: "('b, 'e) EncoderT \<Rightarrow> c_int \<Rightarrow> WireType list \<Rightarrow> 'e" where
  "encoded encoder msg_id args =
     Enc_SetMsgId encoder msg_id
       (add_elements encoder args (snd (Enc_Open encoder (of_nat (length args)) (Enc_new encoder))))"

text \<open>An encoder that ends with no buffer: \<^verbatim>\<open>GetBuffer\<close> returns a null pointer.\<close>

definition bufferless_encoder :: "(frame, frame) EncoderT" where
  "bufferless_encoder = ref_encoder\<lparr>Enc_GetBuffer := (\<lambda>fr. (None, fr))\<rparr>"

text \<open>A transport whose send fails, and reports it by the value \<open>-2\<close>.\<close>

definition failing_transport :: "('b, unit) TransportT" where
  "failing_transport = \<lparr>Tr_Send = (\<lambda>buf u. (- 2, u)), Tr_Receive = (\<lambda>u. (None, u))\<rparr>"

text \<open>
  A decoder that stops at the first chunk and reports success, without a callback.
\<close>

definition idle_decoder :: "('b, unit) DecoderT" where
  "idle_decoder = \<lparr>Dec_new = (), Dec_OnData = (\<lambda>buf u. Fed False u), Dec_Success = (\<lambda>u. True)\<rparr>"

text \<open>Nine arguments, one more than \<^verbatim>\<open>kMaxNumArgs\<close>.\<close>

definition nine_ints :: "WireType list" where
  "nine_ints = [WireInt32 1, WireInt32 2, WireInt32 3, WireInt32 4, WireInt32 5, WireInt32 6,
     WireInt32 7, WireInt32 8, WireInt32 9]"

text \<open>
  A decoder that never starts a message: at the first chunk it hands the handler the given
  words as int32 arguments, one \<^verbatim>\<open>OnWord\<close> callback each, stops and reports success.
\<close>

fun feed_words :: "bits list \<Rightarrow> unit feed" where
  "feed_words [] = Fed False ()"
| "feed_words (w # ws) = Callback (Cb_OnWord w TYPE_INT32) (\<lambda>ok. feed_words ws)"

definition words_decoder :: "bits list \<Rightarrow> ('b, unit) DecoderT" where
  "words_decoder ws = \<lparr>Dec_new = (), Dec_OnData = (\<lambda>buf u. feed_words ws), Dec_Success = (\<lambda>u. True)\<rparr>"

text \<open>
  The encoder accepted every argument: each \<^verbatim>\<open>AddMsgElement\<close> of the loop of
  \<^verbatim>\<open>Send\<close> returned true.
\<close>

fun all_added :: "('b, 'e) EncoderT \<Rightarrow> WireType list \<Rightarrow> 'e \<Rightarrow> bool" where
  "all_added encoder [] e = True"
| "all_added encoder (a # as) e =
     (fst (AddMsgElement encoder a e) \<and> all_added encoder as (snd (AddMsgElement encoder a e)))"

section \<open>Properties\<close>

subsection \<open>Auxiliary facts\<close>

lemma args_loop_in_range:
  "\<forall>ix \<in> set ixs. ix < length (rx_list h) \<Longrightarrow> args_loop h ixs = Returned (map (\<lambda>ix. rx_list h ! ix) ixs)"
  by (induction ixs) (simp_all add: GetArg_def)

lemma args_loop_all: "args_loop h [0..<GetArgCount h] = Returned (rx_list h)"
  by (simp add: args_loop_in_range GetArgCount_def map_nth)

lemma Receive_after_pump:
  assumes "pump fuel T D (Dec_new D) RxHandler_init t = Some (d, h, t')"
  shows "Receive fuel T D P t s =
     (if \<not> Dec_Success D d then Returned (- 1, t', s)
      else if GetArgCount h > kMaxNumArgs then Returned (- 2, t', s)
      else resolve_and_dispatch P (MsgId h) (rx_list h) t' s)"
  using assms
  by (simp add: Receive_def args_loop_all [unfolded GetArgCount_def] resolve_and_dispatch_def
      Let_def GetArgCount_def split: prod.splits option.splits)

lemma resolve_logged:
  "resolve_and_dispatch (logged_dispatch P) mid args t (s, log) =
     (case MsgHandler P mid s of
        (None, s') \<Rightarrow> Returned (- 3, t, (s', log @ [Call_MsgHandler mid]))
      | (Some dispatch, s') \<Rightarrow>
          Returned (fst (OnMsgIn P dispatch mid args (length args) s'), t,
            (snd (OnMsgIn P dispatch mid args (length args) s'),
             log @ [Call_MsgHandler mid, Call_OnMsgIn dispatch mid args (length args)])))"
  by (simp add: resolve_and_dispatch_def logged_dispatch_def noted_def split: prod.splits option.splits)

lemma run_feed_apply_calls: "snd (snd (run_feed f h)) = apply_calls (feed_calls f h) h"
  by (induction f arbitrary: h) simp_all

lemma apply_calls_append: "apply_calls (cs @ ds) h = apply_calls ds (apply_calls cs h)"
  by (induction cs arbitrary: h) simp_all

lemma pump_apply_calls:
  "pump fuel T D d h t = Some (d', h', t') \<Longrightarrow> h' = apply_calls (pump_calls fuel T D d h t) h"
proof (induction fuel arbitrary: d h t)
  case 0
  then show ?case by simp
next
  case (Suc fuel)
  obtain buf t1 where r: "Tr_Receive T t = (buf, t1)" by (cases "Tr_Receive T t")
  obtain again d1 h1 where f: "run_feed (Dec_OnData D buf d) h = (again, d1, h1)"
    by (cases "run_feed (Dec_OnData D buf d) h")
  have h1: "h1 = apply_calls (feed_calls (Dec_OnData D buf d) h) h"
    using run_feed_apply_calls [of "Dec_OnData D buf d" h] f by simp
  show ?case
  proof (cases again)
    case True
    with Suc.prems r f have "pump fuel T D d1 h1 t1 = Some (d', h', t')" by simp
    then have "h' = apply_calls (pump_calls fuel T D d1 h1 t1) h1" by (rule Suc.IH)
    with True r f h1 show ?thesis by (simp add: apply_calls_append)
  next
    case False
    with Suc.prems r f h1 show ?thesis by simp
  qed
qed

lemma rx_apply_msg_id: "\<not> is_start c \<Longrightarrow> rx_msg_id (snd (rx_apply c h)) = rx_msg_id h"
proof (cases c)
  case (Cb_OnWord b t)
  then show ?thesis by (cases t) (simp_all add: push_back_def)
next
  case (Cb_OnString8 str t)
  then show ?thesis by (cases t) (simp_all add: push_back_def)
next
  case (Cb_OnString16 str t)
  then show ?thesis by (cases t) (simp_all add: push_back_def)
qed simp

lemma apply_calls_msg_id:
  "\<forall>c \<in> set cs. \<not> is_start c \<Longrightarrow> rx_msg_id (apply_calls cs h) = rx_msg_id h"
  by (induction cs arbitrary: h) (simp_all add: rx_apply_msg_id)

lemma c_str_no_zero: "0 \<notin> set (c_str s)"
  unfolding c_str_def by (induction s) auto

lemma c_str_id: "0 \<notin> set s \<Longrightarrow> c_str s = s"
  unfolding c_str_def by (induction s) auto

lemma rx_apply_receivable:
  assumes "list_all receivable (rx_list h)"
  shows "list_all receivable (rx_list (snd (rx_apply c h)))"
proof (cases c)
  case (Cb_OnMessageStart mid n)
  with assms show ?thesis by (simp add: OnMessageStart_def)
next
  case (Cb_OnWord b t)
  with assms show ?thesis by (cases t) (simp_all add: push_back_def)
next
  case (Cb_OnString8 str t)
  with assms show ?thesis by (cases t) (simp_all add: push_back_def c_str_no_zero)
next
  case (Cb_OnString16 str t)
  with assms show ?thesis by (cases t) (simp_all add: push_back_def c_str_no_zero)
qed

lemma apply_calls_receivable:
  "list_all receivable (rx_list h) \<Longrightarrow> list_all receivable (rx_list (apply_calls cs h))"
  by (induction cs arbitrary: h) (simp_all add: rx_apply_receivable)

lemma logged_simps:
  "Enc_new (logged E) = (Enc_new E, [])"
  "Enc_Open (logged E) n el = noted (Call_Open n) (Enc_Open E n (fst el)) (snd el)"
  "Enc_Close (logged E) el = noted Call_Close (Enc_Close E (fst el)) (snd el)"
  "Enc_SetMsgId (logged E) mid el = (Enc_SetMsgId E mid (fst el), snd el @ [Call_SetMsgId mid])"
  "Enc_GetBuffer (logged E) el = noted Call_GetBuffer (Enc_GetBuffer E (fst el)) (snd el)"
  by (simp_all add: logged_def)

lemma AddMsgElement_logged:
  "AddMsgElement (logged E) a (e, log) =
     (fst (AddMsgElement E a e), snd (AddMsgElement E a e), log @ element_calls a)"
  by (cases a) (simp_all add: AddMsgElement_def logged_def noted_def)

lemma add_elements_logged:
  "add_elements (logged E) args (e, log) = (add_elements E args e, log @ concat (map element_calls args))"
  by (induction args arbitrary: e log) (simp_all add: AddMsgElement_logged)

lemma Send_unfold:
  "Send T E mid args t =
     (if \<not> fst (Enc_Close E (encoded E mid args)) then (- 1, t, snd (Enc_Close E (encoded E mid args)))
      else case fst (Enc_GetBuffer E (snd (Enc_Close E (encoded E mid args)))) of
             None \<Rightarrow> (- 2, t, snd (Enc_GetBuffer E (snd (Enc_Close E (encoded E mid args)))))
           | Some buf \<Rightarrow> (fst (Tr_Send T buf t), snd (Tr_Send T buf t),
               snd (Enc_GetBuffer E (snd (Enc_Close E (encoded E mid args))))))"
proof -
  obtain ok e4 where c: "Enc_Close E (encoded E mid args) = (ok, e4)"
    by (cases "Enc_Close E (encoded E mid args)")
  obtain buf e5 where g: "Enc_GetBuffer E e4 = (buf, e5)"
    by (cases "Enc_GetBuffer E e4")
  show ?thesis
    using c [unfolded encoded_def] g
    by (cases ok; cases buf) (simp_all add: Send_def encoded_def Let_def split: prod.splits)
qed

lemma encoded_logged:
  "encoded (logged E) mid args =
     (encoded E mid args, Call_Open (of_nat (length args)) # concat (map element_calls args) @ [Call_SetMsgId mid])"
  by (simp add: encoded_def logged_simps noted_def add_elements_logged)

lemma Send_result:
  "fst (Send T E mid args t) =
     (if \<not> fst (Enc_Close E (encoded E mid args)) then - 1
      else case fst (Enc_GetBuffer E (snd (Enc_Close E (encoded E mid args)))) of
             None \<Rightarrow> - 2
           | Some buf \<Rightarrow> fst (Tr_Send T buf t))"
  by (simp add: Send_unfold split: option.splits)

lemma Send_log:
  "snd (snd (snd (Send T (logged E) mid args t))) =
     Call_Open (of_nat (length args)) # concat (map element_calls args) @ [Call_SetMsgId mid, Call_Close] @
     (if fst (Enc_Close E (encoded E mid args)) then [Call_GetBuffer] else [])"
  by (simp add: Send_unfold encoded_logged logged_simps noted_def split: option.splits)

lemma Send_logged_result:
  "fst (Send T (logged E) mid args t) = fst (Send T E mid args t)"
  by (simp add: Send_result encoded_logged logged_simps noted_def split: option.splits)

lemma add_elements_append:
  "add_elements E (xs @ ys) e = add_elements E ys (add_elements E xs e)"
  by (induction xs arbitrary: e) simp_all

lemma add_elements_skip:
  "add_elements E (xs @ WireNone # ys) e = add_elements E (xs @ ys) e"
  by (simp add: add_elements_append AddMsgElement_def)

lemma add_elements_ref:
  "add_elements ref_encoder args fr = fr\<lparr>fr_elements := fr_elements fr @ concat (map ref_elements args)\<rparr>"
proof (induction args arbitrary: fr)
  case Nil
  then show ?case by simp
next
  case (Cons a args)
  have "snd (AddMsgElement ref_encoder a fr) = fr\<lparr>fr_elements := fr_elements fr @ ref_elements a\<rparr>"
    by (cases a) (simp_all add: AddMsgElement_def ref_encoder_def add_element_def)
  then show ?case by (simp add: Cons.IH)
qed

lemma Send_ref:
  "Send (loopback sz) ref_encoder mid args q =
     (sz \<lparr>fr_msg_id = mid, fr_n_args = of_nat (length args), fr_elements = concat (map ref_elements args)\<rparr>,
      q @ [\<lparr>fr_msg_id = mid, fr_n_args = of_nat (length args), fr_elements = concat (map ref_elements args)\<rparr>],
      \<lparr>fr_msg_id = mid, fr_n_args = of_nat (length args), fr_elements = concat (map ref_elements args)\<rparr>)"
  by (simp add: Send_def add_elements_ref Let_def) (simp add: ref_encoder_def loopback_def)

lemma run_feed_ref:
  "list_all receivable args \<Longrightarrow>
   run_feed (feed_elements (concat (map ref_elements args))) h = (False, Dec_Done, h\<lparr>rx_list := rx_list h @ args\<rparr>)"
proof (induction args arbitrary: h)
  case Nil
  then show ?case by simp
next
  case (Cons a args)
  then have a: "receivable a" and r: "list_all receivable args" by simp_all
  from a show ?case
    by (cases a) (simp_all add: Cons.IH [OF r] push_back_def ucast_up_ucast_id is_up c_str_id)
qed

lemma pump_ref:
  assumes "list_all receivable args"
  shows "pump (Suc n) (loopback sz) ref_decoder (Dec_new ref_decoder) RxHandler_init
      (\<lparr>fr_msg_id = mid, fr_n_args = k, fr_elements = concat (map ref_elements args)\<rparr> # q) =
     Some (Dec_Done, \<lparr>rx_list = args, rx_msg_id = mid\<rparr>, q)"
  by (simp add: loopback_def ref_decoder_def OnMessageStart_def run_feed_ref [OF assms] RxHandler_init_def)

lemma resolve_logged_nil:
  "resolve_and_dispatch (logged_dispatch P) mid args t (s, []) =
     (case MsgHandler P mid s of
        (None, s') \<Rightarrow> Returned (- 3, t, (s', [Call_MsgHandler mid]))
      | (Some dispatch, s') \<Rightarrow>
          Returned (fst (OnMsgIn P dispatch mid args (length args) s'), t,
            (snd (OnMsgIn P dispatch mid args (length args) s'),
             [Call_MsgHandler mid, Call_OnMsgIn dispatch mid args (length args)])))"
  by (simp add: resolve_logged split: prod.splits option.splits)

lemma Success_ref: "Dec_Success ref_decoder d = (d = Dec_Done)"
  by (simp add: ref_decoder_def)

subsection \<open>The word callback of the handler\<close>

text \<open>
  Claim C7. For every pair of bits and type id, \<^verbatim>\<open>RxHandler::OnWord\<close> appends exactly
  one value, whose tag is the type id, and returns true when the type id is one of int32,
  uint32, char8, char16, null-string-8 and null-string-16; for every other type id it
  returns false and leaves the handler as it was.
\<close>

theorem OnWord_by_tag:
  "(t \<in> {TYPE_INT32, TYPE_UINT32, TYPE_CHAR8, TYPE_CHAR16, TYPE_NULLSTRING8, TYPE_NULLSTRING16} \<longrightarrow>
      (\<exists>w. WireType_Id w = t \<and> OnWord b t h = (True, h\<lparr>rx_list := rx_list h @ [w]\<rparr>))) \<and>
   (t \<notin> {TYPE_INT32, TYPE_UINT32, TYPE_CHAR8, TYPE_CHAR16, TYPE_NULLSTRING8, TYPE_NULLSTRING16} \<longrightarrow>
      OnWord b t h = (False, h))"
  by (cases t; simp add: push_back_def; (rule exI, rule conjI [rotated], rule refl, simp))

theorem OnWord_by_tag_witness:
  "(\<exists>w. WireType_Id w = TYPE_INT32 \<and>
        OnWord 42 TYPE_INT32 RxHandler_init = (True, RxHandler_init\<lparr>rx_list := rx_list RxHandler_init @ [w]\<rparr>)) \<and>
   OnWord 42 TYPE_STRING8 RxHandler_init = (False, RxHandler_init)"
  using OnWord_by_tag [of TYPE_INT32 42 RxHandler_init] OnWord_by_tag [of TYPE_STRING8 42 RxHandler_init]
  by simp

subsection \<open>The cap on the number of arguments\<close>

lemma pump_nine:
  "pump (Suc 0) (loopback frame_size) ref_decoder (Dec_new ref_decoder) RxHandler_init
     (fst (snd (Send (loopback frame_size) ref_encoder 7 nine_ints []))) =
   Some (Dec_Done, \<lparr>rx_list = nine_ints, rx_msg_id = 7\<rparr>, [])"
proof -
  have r: "list_all receivable nine_ints" by (simp add: nine_ints_def)
  have q: "fst (snd (Send (loopback frame_size) ref_encoder 7 nine_ints [])) =
    [\<lparr>fr_msg_id = 7, fr_n_args = of_nat (length nine_ints), fr_elements = concat (map ref_elements nine_ints)\<rparr>]"
    by (simp add: Send_ref)
  show ?thesis unfolding q by (rule pump_ref [OF r])
qed

text \<open>
  Claim C3. Whenever the receive loop ends with a decoder that reports success and the
  handler holds more than \<^verbatim>\<open>kMaxNumArgs\<close> (8) arguments, \<^verbatim>\<open>Receive\<close> returns
  \<open>-2\<close> and the dispatcher has received no call at all: neither \<^verbatim>\<open>MsgHandler\<close> nor
  \<^verbatim>\<open>OnMsgIn\<close>. A message of nine arguments is the witness.
\<close>

theorem Receive_cap:
  assumes "pump fuel T D (Dec_new D) RxHandler_init t = Some (d, h, t')"
    and "Dec_Success D d"
    and "kMaxNumArgs < GetArgCount h"
  shows "Receive fuel T D (logged_dispatch P) t (s, []) = Returned (- 2, t', (s, []))"
  using assms by (simp add: Receive_after_pump)

theorem Receive_cap_witness:
  "pump (Suc 0) (loopback frame_size) ref_decoder (Dec_new ref_decoder) RxHandler_init
     (fst (snd (Send (loopback frame_size) ref_encoder 7 nine_ints []))) =
     Some (Dec_Done, \<lparr>rx_list = nine_ints, rx_msg_id = 7\<rparr>, []) \<and>
   Dec_Success ref_decoder Dec_Done \<and>
   kMaxNumArgs < GetArgCount \<lparr>rx_list = nine_ints, rx_msg_id = 7\<rparr> \<and>
   GetArgCount \<lparr>rx_list = nine_ints, rx_msg_id = 7\<rparr> = kMaxNumArgs + 1 \<and>
   Receive (Suc 0) (loopback frame_size) ref_decoder (logged_dispatch (single_dispatch 7))
     (fst (snd (Send (loopback frame_size) ref_encoder 7 nine_ints []))) (0, []) =
     Returned (- 2, [], (0, []))"
proof -
  have s: "Dec_Success ref_decoder Dec_Done" by (simp add: ref_decoder_def)
  have c: "kMaxNumArgs < GetArgCount \<lparr>rx_list = nine_ints, rx_msg_id = 7\<rparr>"
    by (simp add: kMaxNumArgs_def GetArgCount_def nine_ints_def)
  have e: "GetArgCount \<lparr>rx_list = nine_ints, rx_msg_id = 7\<rparr> = kMaxNumArgs + 1"
    by (simp add: kMaxNumArgs_def GetArgCount_def nine_ints_def)
  show ?thesis
    using pump_nine s c e Receive_cap [OF pump_nine s c, of "single_dispatch 7" 0] by simp
qed

subsection \<open>The failure paths of Receive\<close>

lemma pump_empty_queue:
  "pump (Suc 0) (loopback frame_size) ref_decoder (Dec_new ref_decoder) RxHandler_init [] =
     Some (Dec_Failed, RxHandler_init, [])"
  by (simp add: loopback_def ref_decoder_def)

lemma pump_ping:
  "pump (Suc 0) (loopback frame_size) ref_decoder (Dec_new ref_decoder) RxHandler_init
     (fst (snd (Send (loopback frame_size) ref_encoder 5 [WireInt32 42] []))) =
   Some (Dec_Done, \<lparr>rx_list = [WireInt32 42], rx_msg_id = 5\<rparr>, [])"
proof -
  have r: "list_all receivable [WireInt32 42]" by simp
  have q: "fst (snd (Send (loopback frame_size) ref_encoder 5 [WireInt32 42] [])) =
    [\<lparr>fr_msg_id = 5, fr_n_args = of_nat (length [WireInt32 42]),
       fr_elements = concat (map ref_elements [WireInt32 42])\<rparr>]"
    by (simp add: Send_ref)
  show ?thesis unfolding q by (rule pump_ref [OF r])
qed

text \<open>
  Claim C4. Once the receive loop has ended, the three failure paths of \<^verbatim>\<open>Receive\<close>
  return three different values and none of them calls \<^verbatim>\<open>OnMsgIn\<close>: a decoder
  that does not report success gives \<open>-1\<close> with no call on the dispatcher; more than
  \<^verbatim>\<open>kMaxNumArgs\<close> arguments give \<open>-2\<close> with no call on the dispatcher; a message
  id for which \<^verbatim>\<open>MsgHandler\<close> returns a null pointer gives \<open>-3\<close>, the only call
  being that lookup.
\<close>

theorem Receive_failures:
  assumes "pump fuel T D (Dec_new D) RxHandler_init t = Some (d, h, t')"
  shows "(\<not> Dec_Success D d \<longrightarrow>
            Receive fuel T D (logged_dispatch P) t (s, []) = Returned (- 1, t', (s, []))) \<and>
         (Dec_Success D d \<and> kMaxNumArgs < GetArgCount h \<longrightarrow>
            Receive fuel T D (logged_dispatch P) t (s, []) = Returned (- 2, t', (s, []))) \<and>
         (Dec_Success D d \<and> GetArgCount h \<le> kMaxNumArgs \<and> fst (MsgHandler P (MsgId h) s) = None \<longrightarrow>
            Receive fuel T D (logged_dispatch P) t (s, []) =
              Returned (- 3, t', (snd (MsgHandler P (MsgId h) s), [Call_MsgHandler (MsgId h)]))) \<and>
         (- 1 :: size_t) \<noteq> - 2 \<and> (- 1 :: size_t) \<noteq> - 3 \<and> (- 2 :: size_t) \<noteq> - 3"
  using assms by (simp add: Receive_after_pump resolve_logged_nil split: prod.splits)

theorem Receive_failures_witness:
  "Receive (Suc 0) (loopback frame_size) ref_decoder (logged_dispatch (single_dispatch 7)) [] (0, []) =
     Returned (- 1, [], (0, [])) \<and>
   Receive (Suc 0) (loopback frame_size) ref_decoder (logged_dispatch (single_dispatch 7))
     (fst (snd (Send (loopback frame_size) ref_encoder 7 nine_ints []))) (0, []) =
     Returned (- 2, [], (0, [])) \<and>
   Receive (Suc 0) (loopback frame_size) ref_decoder (logged_dispatch (single_dispatch 7))
     (fst (snd (Send (loopback frame_size) ref_encoder 5 [WireInt32 42] []))) (0, []) =
     Returned (- 3, [], (0, [Call_MsgHandler 5]))"
  using Receive_failures [OF pump_empty_queue, of "single_dispatch 7" 0]
    Receive_failures [OF pump_nine, of "single_dispatch 7" 0]
    Receive_failures [OF pump_ping, of "single_dispatch 7" 0]
  by (simp add: ref_decoder_def kMaxNumArgs_def GetArgCount_def nine_ints_def single_dispatch_def MsgId_def)

subsection \<open>A decoder that never starts a message\<close>

lemma pump_idle:
  "pump (Suc 0) (loopback frame_size) idle_decoder (Dec_new idle_decoder) RxHandler_init [] =
     Some ((), RxHandler_init, [])"
  by (simp add: loopback_def idle_decoder_def)

lemma pump_nine_words:
  "pump (Suc 0) (loopback frame_size) (words_decoder [1, 2, 3, 4, 5, 6, 7, 8, 9])
     (Dec_new (words_decoder [1, 2, 3, 4, 5, 6, 7, 8, 9])) RxHandler_init [] =
     Some ((), \<lparr>rx_list = nine_ints, rx_msg_id = - 1\<rparr>, [])"
  by (simp add: loopback_def words_decoder_def push_back_def RxHandler_init_def nine_ints_def)

text \<open>
  Claim C10, as amended. If the receive loop ends with a decoder that reports success and
  never called \<^verbatim>\<open>OnMessageStart\<close>, the message id of the handler is still the \<open>-1\<close>
  of its constructor and \<^verbatim>\<open>Receive\<close> does not return an error for it. With at most
  \<^verbatim>\<open>kMaxNumArgs\<close> accumulated arguments it asks the dispatcher for the handler of
  \<open>-1\<close> and hands it the arguments the callbacks accumulated; with more it returns
  \<open>-2\<close> as for any message. The arguments are zero when the decoder made no callback at
  all.
\<close>

theorem Receive_without_start:
  assumes "pump fuel T D (Dec_new D) RxHandler_init t = Some (d, h, t')"
    and "Dec_Success D d"
    and "\<forall>c \<in> set (pump_calls fuel T D (Dec_new D) RxHandler_init t). \<not> is_start c"
  shows "MsgId h = - 1 \<and>
    (GetArgCount h \<le> kMaxNumArgs \<longrightarrow>
       Receive fuel T D (logged_dispatch P) t (s, []) =
         (case MsgHandler P (- 1) s of
            (None, s') \<Rightarrow> Returned (- 3, t', (s', [Call_MsgHandler (- 1)]))
          | (Some dispatch, s') \<Rightarrow>
              Returned (fst (OnMsgIn P dispatch (- 1) (rx_list h) (length (rx_list h)) s'), t',
                (snd (OnMsgIn P dispatch (- 1) (rx_list h) (length (rx_list h)) s'),
                 [Call_MsgHandler (- 1), Call_OnMsgIn dispatch (- 1) (rx_list h) (length (rx_list h))])))) \<and>
    (kMaxNumArgs < GetArgCount h \<longrightarrow>
       Receive fuel T D (logged_dispatch P) t (s, []) = Returned (- 2, t', (s, []))) \<and>
    (pump_calls fuel T D (Dec_new D) RxHandler_init t = [] \<longrightarrow>
       rx_list h = [] \<and>
       Receive fuel T D (logged_dispatch P) t (s, []) =
         (case MsgHandler P (- 1) s of
            (None, s') \<Rightarrow> Returned (- 3, t', (s', [Call_MsgHandler (- 1)]))
          | (Some dispatch, s') \<Rightarrow>
              Returned (fst (OnMsgIn P dispatch (- 1) [] 0 s'), t',
                (snd (OnMsgIn P dispatch (- 1) [] 0 s'),
                 [Call_MsgHandler (- 1), Call_OnMsgIn dispatch (- 1) [] 0]))))"
proof -
  let ?cs = "pump_calls fuel T D (Dec_new D) RxHandler_init t"
  have h: "h = apply_calls ?cs RxHandler_init"
    using assms(1) by (rule pump_apply_calls)
  have mid: "MsgId h = - 1"
    using apply_calls_msg_id [OF assms(3), of RxHandler_init] h
    by (simp add: MsgId_def RxHandler_init_def)
  have general: "GetArgCount h \<le> kMaxNumArgs \<Longrightarrow>
      Receive fuel T D (logged_dispatch P) t (s, []) =
        resolve_and_dispatch (logged_dispatch P) (- 1) (rx_list h) t' (s, [])"
    using assms(1,2) mid by (simp add: Receive_after_pump)
  have nil: "rx_list h = []" if "?cs = []"
    using that h by (simp add: RxHandler_init_def)
  have count: "GetArgCount h \<le> kMaxNumArgs" if "?cs = []"
    using nil [OF that] by (simp add: GetArgCount_def)
  have first: "GetArgCount h \<le> kMaxNumArgs \<longrightarrow>
       Receive fuel T D (logged_dispatch P) t (s, []) =
         (case MsgHandler P (- 1) s of
            (None, s') \<Rightarrow> Returned (- 3, t', (s', [Call_MsgHandler (- 1)]))
          | (Some dispatch, s') \<Rightarrow>
              Returned (fst (OnMsgIn P dispatch (- 1) (rx_list h) (length (rx_list h)) s'), t',
                (snd (OnMsgIn P dispatch (- 1) (rx_list h) (length (rx_list h)) s'),
                 [Call_MsgHandler (- 1), Call_OnMsgIn dispatch (- 1) (rx_list h) (length (rx_list h))])))"
    using general by (simp add: resolve_logged_nil)
  have over: "kMaxNumArgs < GetArgCount h \<longrightarrow>
       Receive fuel T D (logged_dispatch P) t (s, []) = Returned (- 2, t', (s, []))"
    using assms(1,2) by (simp add: Receive_after_pump)
  have second: "?cs = [] \<longrightarrow>
       rx_list h = [] \<and>
       Receive fuel T D (logged_dispatch P) t (s, []) =
         (case MsgHandler P (- 1) s of
            (None, s') \<Rightarrow> Returned (- 3, t', (s', [Call_MsgHandler (- 1)]))
          | (Some dispatch, s') \<Rightarrow>
              Returned (fst (OnMsgIn P dispatch (- 1) [] 0 s'), t',
                (snd (OnMsgIn P dispatch (- 1) [] 0 s'),
                 [Call_MsgHandler (- 1), Call_OnMsgIn dispatch (- 1) [] 0])))"
  proof
    assume e: "?cs = []"
    show "rx_list h = [] \<and>
       Receive fuel T D (logged_dispatch P) t (s, []) =
         (case MsgHandler P (- 1) s of
            (None, s') \<Rightarrow> Returned (- 3, t', (s', [Call_MsgHandler (- 1)]))
          | (Some dispatch, s') \<Rightarrow>
              Returned (fst (OnMsgIn P dispatch (- 1) [] 0 s'), t',
                (snd (OnMsgIn P dispatch (- 1) [] 0 s'),
                 [Call_MsgHandler (- 1), Call_OnMsgIn dispatch (- 1) [] 0])))"
      using general [OF count [OF e]] nil [OF e]
      by (simp add: resolve_logged_nil split: prod.splits option.splits)
  qed
  from mid first over second show ?thesis by blast
qed

theorem Receive_without_start_witness:
  "pump (Suc 0) (loopback frame_size) idle_decoder (Dec_new idle_decoder) RxHandler_init [] =
     Some ((), RxHandler_init, []) \<and>
   Dec_Success idle_decoder () \<and>
   pump_calls (Suc 0) (loopback frame_size) idle_decoder (Dec_new idle_decoder) RxHandler_init [] = [] \<and>
   Receive (Suc 0) (loopback frame_size) idle_decoder (logged_dispatch (single_dispatch (- 1))) [] (0, []) =
     Returned (0, [], (Suc 0, [Call_MsgHandler (- 1), Call_OnMsgIn (- 1) (- 1) [] 0])) \<and>
   pump_calls (Suc 0) (loopback frame_size) (words_decoder [1, 2, 3, 4, 5, 6, 7, 8, 9])
     (Dec_new (words_decoder [1, 2, 3, 4, 5, 6, 7, 8, 9])) RxHandler_init [] =
     [Cb_OnWord 1 TYPE_INT32, Cb_OnWord 2 TYPE_INT32, Cb_OnWord 3 TYPE_INT32, Cb_OnWord 4 TYPE_INT32,
      Cb_OnWord 5 TYPE_INT32, Cb_OnWord 6 TYPE_INT32, Cb_OnWord 7 TYPE_INT32, Cb_OnWord 8 TYPE_INT32,
      Cb_OnWord 9 TYPE_INT32] \<and>
   Receive (Suc 0) (loopback frame_size) (words_decoder [1, 2, 3, 4, 5, 6, 7, 8, 9])
     (logged_dispatch (single_dispatch (- 1))) [] (0, []) = Returned (- 2, [], (0, []))"
proof -
  have s: "Dec_Success idle_decoder ()" by (simp add: idle_decoder_def)
  have c: "pump_calls (Suc 0) (loopback frame_size) idle_decoder (Dec_new idle_decoder) RxHandler_init [] = []"
    by (simp add: loopback_def idle_decoder_def)
  have n: "\<forall>c \<in> set (pump_calls (Suc 0) (loopback frame_size) idle_decoder (Dec_new idle_decoder) RxHandler_init []). \<not> is_start c"
    unfolding c by simp
  have s9: "Dec_Success (words_decoder [1, 2, 3, 4, 5, 6, 7, 8, 9]) ()" by (simp add: words_decoder_def)
  have c9: "pump_calls (Suc 0) (loopback frame_size) (words_decoder [1, 2, 3, 4, 5, 6, 7, 8, 9])
     (Dec_new (words_decoder [1, 2, 3, 4, 5, 6, 7, 8, 9])) RxHandler_init [] =
     [Cb_OnWord 1 TYPE_INT32, Cb_OnWord 2 TYPE_INT32, Cb_OnWord 3 TYPE_INT32, Cb_OnWord 4 TYPE_INT32,
      Cb_OnWord 5 TYPE_INT32, Cb_OnWord 6 TYPE_INT32, Cb_OnWord 7 TYPE_INT32, Cb_OnWord 8 TYPE_INT32,
      Cb_OnWord 9 TYPE_INT32]"
    by (simp add: loopback_def words_decoder_def)
  have n9: "\<forall>c \<in> set (pump_calls (Suc 0) (loopback frame_size) (words_decoder [1, 2, 3, 4, 5, 6, 7, 8, 9])
     (Dec_new (words_decoder [1, 2, 3, 4, 5, 6, 7, 8, 9])) RxHandler_init []). \<not> is_start c"
    unfolding c9 by simp
  have k9: "kMaxNumArgs < GetArgCount \<lparr>rx_list = nine_ints, rx_msg_id = - 1\<rparr>"
    by (simp add: kMaxNumArgs_def GetArgCount_def nine_ints_def)
  show ?thesis
    using pump_idle s c c9 k9
      Receive_without_start [OF pump_idle s n, of "single_dispatch (- 1)" 0]
      Receive_without_start [OF pump_nine_words s9 n9, of "single_dispatch (- 1)" 0]
    by (simp add: single_dispatch_def)
qed

text \<open>
  The claim as the spec states it, with zero arguments for every decoder that never starts
  a message, fails: a decoder that makes one \<^verbatim>\<open>OnWord\<close> callback and no
  \<^verbatim>\<open>OnMessageStart\<close> has its message dispatched with id \<open>-1\<close> and one argument.
\<close>

theorem Receive_without_start_counterexample:
  "pump_calls (Suc 0) (loopback frame_size) (words_decoder [42]) (Dec_new (words_decoder [42]))
     RxHandler_init [] = [Cb_OnWord 42 TYPE_INT32] \<and>
   pump (Suc 0) (loopback frame_size) (words_decoder [42]) (Dec_new (words_decoder [42]))
     RxHandler_init [] = Some ((), \<lparr>rx_list = [WireInt32 42], rx_msg_id = - 1\<rparr>, []) \<and>
   Dec_Success (words_decoder [42]) () \<and>
   Receive (Suc 0) (loopback frame_size) (words_decoder [42]) (logged_dispatch (single_dispatch (- 1)))
     [] (0, []) =
     Returned (1, [], (Suc 0, [Call_MsgHandler (- 1), Call_OnMsgIn (- 1) (- 1) [WireInt32 42] 1]))"
  by (simp add: Receive_def loopback_def words_decoder_def push_back_def RxHandler_init_def
      GetArgCount_def GetArg_def kMaxNumArgs_def MsgId_def logged_dispatch_def single_dispatch_def
      noted_def)

subsection \<open>Sending and receiving through the reference pair\<close>

text \<open>
  Claim C1, as amended. For every message id and every list of at most \<^verbatim>\<open>kMaxNumArgs\<close>
  arguments whose tags are among int32, uint32, char8, char16, null-string-8,
  null-string-16, string-8, byte-array and string-16 (a string holding no zero character),
  \<^verbatim>\<open>Send\<close> through the reference encoder followed by \<^verbatim>\<open>Receive\<close> through the
  reference decoder asks the dispatcher for the handler of the same message id and hands
  that handler the same arguments, in the same order. This holds for whatever fuel the
  receive loop is given: it ends after one round.
\<close>

theorem Receive_Send_roundtrip:
  assumes "length args \<le> kMaxNumArgs" and "list_all receivable args"
  shows "Receive (Suc n) (loopback sz) ref_decoder (logged_dispatch P)
           (fst (snd (Send (loopback sz) ref_encoder mid args []))) (s, []) =
         (case MsgHandler P mid s of
            (None, s') \<Rightarrow> Returned (- 3, [], (s', [Call_MsgHandler mid]))
          | (Some dispatch, s') \<Rightarrow>
              Returned (fst (OnMsgIn P dispatch mid args (length args) s'), [],
                (snd (OnMsgIn P dispatch mid args (length args) s'),
                 [Call_MsgHandler mid, Call_OnMsgIn dispatch mid args (length args)])))"
proof -
  let ?fr = "\<lparr>fr_msg_id = mid, fr_n_args = of_nat (length args),
               fr_elements = concat (map ref_elements args)\<rparr>"
  have q: "fst (snd (Send (loopback sz) ref_encoder mid args [])) = [?fr]"
    by (simp add: Send_ref)
  have p: "pump (Suc n) (loopback sz) ref_decoder (Dec_new ref_decoder) RxHandler_init [?fr] =
      Some (Dec_Done, \<lparr>rx_list = args, rx_msg_id = mid\<rparr>, [])"
    by (rule pump_ref [OF assms(2)])
  have "Receive (Suc n) (loopback sz) ref_decoder (logged_dispatch P) [?fr] (s, []) =
      resolve_and_dispatch (logged_dispatch P) mid args [] (s, [])"
    using assms(1) by (simp add: Receive_after_pump [OF p] Success_ref GetArgCount_def MsgId_def)
  then show ?thesis by (simp add: q resolve_logged_nil)
qed

theorem Receive_Send_roundtrip_witness:
  "length [WireInt32 42, WireString8 [112, 105, 110, 103]] \<le> kMaxNumArgs \<and>
   list_all receivable [WireInt32 42, WireString8 [112, 105, 110, 103]] \<and>
   Receive (Suc 0) (loopback frame_size) ref_decoder (logged_dispatch (single_dispatch 7))
     (fst (snd (Send (loopback frame_size) ref_encoder 7 [WireInt32 42, WireString8 [112, 105, 110, 103]] [])))
     (0, []) =
   Returned (2, [], (Suc 0,
     [Call_MsgHandler 7, Call_OnMsgIn 7 7 [WireInt32 42, WireString8 [112, 105, 110, 103]] 2]))"
proof -
  have l: "length [WireInt32 42, WireString8 [112, 105, 110, 103]] \<le> kMaxNumArgs"
    by (simp add: kMaxNumArgs_def)
  have r: "list_all receivable [WireInt32 42, WireString8 [112, 105, 110, 103]]"
    by simp
  show ?thesis
    using l r Receive_Send_roundtrip [OF l r, of 0 frame_size "single_dispatch 7" 7 0]
    by (simp add: single_dispatch_def)
qed

text \<open>
  The claim as the spec states it, over every tag, fails: a descriptor or a handle is
  encoded, but the handler has no callback that rebuilds it, and an argument tagged none is
  dropped by \<^verbatim>\<open>AddMsgElement\<close> before the encoder sees it, so the handler gets an
  empty list.
\<close>

theorem Receive_Send_roundtrip_counterexample:
  "Receive (Suc 0) (loopback frame_size) ref_decoder (logged_dispatch (single_dispatch 7))
     (fst (snd (Send (loopback frame_size) ref_encoder 7 [WireUnixFd 3] []))) (0, []) =
     Returned (- 1, [], (0, [])) \<and>
   Receive (Suc 0) (loopback frame_size) ref_decoder (logged_dispatch (single_dispatch 7))
     (fst (snd (Send (loopback frame_size) ref_encoder 7 [WireWinHandle 3] []))) (0, []) =
     Returned (- 1, [], (0, [])) \<and>
   Receive (Suc 0) (loopback frame_size) ref_decoder (logged_dispatch (single_dispatch 7))
     (fst (snd (Send (loopback frame_size) ref_encoder 7 [WireNone] []))) (0, []) =
     Returned (0, [], (Suc 0, [Call_MsgHandler 7, Call_OnMsgIn 7 7 [] 0]))"
  by (simp only: Send_ref fst_conv snd_conv)
    (simp add: Receive_def loopback_def ref_decoder_def OnMessageStart_def
      RxHandler_init_def GetArgCount_def GetArg_def kMaxNumArgs_def MsgId_def logged_dispatch_def
      single_dispatch_def noted_def)

subsection \<open>Reading an argument of the handler\<close>

text \<open>
  Claim C6, as amended. \<^verbatim>\<open>RxHandler::GetArg\<close> is not bounds-checked: it returns the
  argument at an index below \<^verbatim>\<open>GetArgCount\<close>, and an index at or above the count is
  an unchecked read outside the vector. \<^verbatim>\<open>Receive\<close> itself only reads the indices
  below the count, so its loop collects exactly the accumulated arguments.
\<close>

theorem GetArg_unchecked:
  "(ix < GetArgCount h \<longrightarrow> GetArg h ix = Returned (rx_list h ! ix)) \<and>
   (GetArgCount h \<le> ix \<longrightarrow> GetArg h ix = UndefinedBehaviour) \<and>
   args_loop h [0..<GetArgCount h] = Returned (rx_list h)"
  by (simp add: GetArg_def GetArgCount_def args_loop_all [unfolded GetArgCount_def])

theorem GetArg_unchecked_witness:
  "GetArg \<lparr>rx_list = [WireInt32 42, WireNullString8], rx_msg_id = 7\<rparr> 1 = Returned WireNullString8 \<and>
   GetArg \<lparr>rx_list = [WireInt32 42, WireNullString8], rx_msg_id = 7\<rparr> 2 = UndefinedBehaviour \<and>
   args_loop \<lparr>rx_list = [WireInt32 42, WireNullString8], rx_msg_id = 7\<rparr>
     [0..<GetArgCount \<lparr>rx_list = [WireInt32 42, WireNullString8], rx_msg_id = 7\<rparr>] =
     Returned [WireInt32 42, WireNullString8]"
  using GetArg_unchecked [of 1 "\<lparr>rx_list = [WireInt32 42, WireNullString8], rx_msg_id = 7\<rparr>"]
    GetArg_unchecked [of 2 "\<lparr>rx_list = [WireInt32 42, WireNullString8], rx_msg_id = 7\<rparr>"]
  by (simp add: GetArgCount_def)

text \<open>
  After one argument has been accumulated, index 1 is outside the vector.
\<close>

theorem GetArg_unchecked_counterexample:
  "GetArg (snd (OnWord 42 TYPE_INT32 RxHandler_init)) 1 = UndefinedBehaviour \<and>
   GetArgCount (snd (OnWord 42 TYPE_INT32 RxHandler_init)) = 1"
  by (simp add: GetArg_def GetArgCount_def push_back_def RxHandler_init_def)

subsection \<open>The results of Send\<close>

text \<open>
  Claim C5, as amended. When the encoder has accepted \<^verbatim>\<open>Open\<close> and every argument,
  \<^verbatim>\<open>Send\<close> returns \<open>-1\<close> when \<^verbatim>\<open>Close\<close> of the encoder fails and \<open>-2\<close> when
  \<^verbatim>\<open>Close\<close> succeeds and \<^verbatim>\<open>GetBuffer\<close> returns no buffer, two different values;
  otherwise it returns what \<^verbatim>\<open>Send\<close> of the transport returns, unchanged: a failure
  of the transport has no value of the channel's own. Nothing is stated here about an
  encoder that refuses an argument.
\<close>

theorem Send_sentinels:
  assumes "fst (Enc_Open E (of_nat (length args)) (Enc_new E))"
    and "all_added E args (snd (Enc_Open E (of_nat (length args)) (Enc_new E)))"
  shows "fst (Send T E mid args t) =
     (if \<not> fst (Enc_Close E (encoded E mid args)) then - 1
      else case fst (Enc_GetBuffer E (snd (Enc_Close E (encoded E mid args)))) of
             None \<Rightarrow> - 2
           | Some buf \<Rightarrow> fst (Tr_Send T buf t)) \<and>
   (- 1 :: size_t) \<noteq> - 2"
  by (simp add: Send_result)

theorem Send_sentinels_witness:
  "fst (Enc_Open ref_encoder (of_nat (length [WireInt32 42])) (Enc_new ref_encoder)) \<and>
   all_added ref_encoder [WireInt32 42]
     (snd (Enc_Open ref_encoder (of_nat (length [WireInt32 42])) (Enc_new ref_encoder))) \<and>
   fst (Send (loopback frame_size) (ref_encoder\<lparr>Enc_Close := (\<lambda>fr. (False, fr))\<rparr>) 7 [WireInt32 42] []) = - 1 \<and>
   fst (Send (loopback frame_size) bufferless_encoder 7 [WireInt32 42] []) = - 2 \<and>
   fst (Send (loopback frame_size) ref_encoder 7 [WireInt32 42] []) = 16"
proof -
  have o1: "fst (Enc_Open (ref_encoder\<lparr>Enc_Close := (\<lambda>fr. (False, fr))\<rparr>) (of_nat (length [WireInt32 42]))
      (Enc_new (ref_encoder\<lparr>Enc_Close := (\<lambda>fr. (False, fr))\<rparr>)))"
    by (simp add: ref_encoder_def)
  have a1: "all_added (ref_encoder\<lparr>Enc_Close := (\<lambda>fr. (False, fr))\<rparr>) [WireInt32 42]
      (snd (Enc_Open (ref_encoder\<lparr>Enc_Close := (\<lambda>fr. (False, fr))\<rparr>) (of_nat (length [WireInt32 42]))
        (Enc_new (ref_encoder\<lparr>Enc_Close := (\<lambda>fr. (False, fr))\<rparr>))))"
    by (simp add: AddMsgElement_def ref_encoder_def add_element_def)
  have o2: "fst (Enc_Open bufferless_encoder (of_nat (length [WireInt32 42])) (Enc_new bufferless_encoder))"
    by (simp add: bufferless_encoder_def ref_encoder_def)
  have a2: "all_added bufferless_encoder [WireInt32 42]
      (snd (Enc_Open bufferless_encoder (of_nat (length [WireInt32 42])) (Enc_new bufferless_encoder)))"
    by (simp add: AddMsgElement_def bufferless_encoder_def ref_encoder_def add_element_def)
  have o3: "fst (Enc_Open ref_encoder (of_nat (length [WireInt32 42])) (Enc_new ref_encoder))"
    by (simp add: ref_encoder_def)
  have a3: "all_added ref_encoder [WireInt32 42]
      (snd (Enc_Open ref_encoder (of_nat (length [WireInt32 42])) (Enc_new ref_encoder)))"
    by (simp add: AddMsgElement_def ref_encoder_def add_element_def)
  show ?thesis
    using o3 a3
      Send_sentinels [OF o1 a1, of "loopback frame_size" 7 "[]"]
      Send_sentinels [OF o2 a2, of "loopback frame_size" 7 "[]"]
      Send_sentinels [OF o3 a3, of "loopback frame_size" 7 "[]"]
    by (simp add: encoded_def AddMsgElement_def bufferless_encoder_def ref_encoder_def loopback_def
        frame_size_def add_element_def)
qed

text \<open>
  The conditions of the claim do not map to values of their own: with an encoder that
  accepts every call, a transport that fails with \<open>-2\<close> gives the result of a missing
  buffer.
\<close>

theorem Send_sentinels_counterexample:
  "fst (Enc_Open ref_encoder 1 (Enc_new ref_encoder)) \<and>
   all_added ref_encoder [WireInt32 42] (snd (Enc_Open ref_encoder 1 (Enc_new ref_encoder))) \<and>
   fst (Send failing_transport ref_encoder 7 [WireInt32 42] ()) = - 2 \<and>
   fst (Enc_Open bufferless_encoder 1 (Enc_new bufferless_encoder)) \<and>
   all_added bufferless_encoder [WireInt32 42] (snd (Enc_Open bufferless_encoder 1 (Enc_new bufferless_encoder))) \<and>
   fst (Send (loopback frame_size) bufferless_encoder 7 [WireInt32 42] []) = - 2"
  by (simp add: Send_def Let_def AddMsgElement_def bufferless_encoder_def ref_encoder_def
      failing_transport_def loopback_def frame_size_def add_element_def)

subsection \<open>What Send asks of the encoder\<close>

text \<open>
  Claim C8. \<^verbatim>\<open>Send\<close> compares the number of arguments with nothing: for every list
  of arguments, of whatever length, the encoder is opened for that many arguments, then
  receives the call of every argument in order (none for an argument tagged none), then
  \<^verbatim>\<open>SetMsgId\<close> and \<^verbatim>\<open>Close\<close>, and \<^verbatim>\<open>GetBuffer\<close> when \<^verbatim>\<open>Close\<close> succeeded.
  Nine arguments are the witness.
\<close>

theorem Send_no_cap:
  "snd (snd (snd (Send T (logged E) mid args t))) =
     Call_Open (of_nat (length args)) # concat (map element_calls args) @ [Call_SetMsgId mid, Call_Close] @
     (if fst (Enc_Close E (encoded E mid args)) then [Call_GetBuffer] else [])"
  by (rule Send_log)

theorem Send_no_cap_witness:
  "kMaxNumArgs < length nine_ints \<and>
   snd (snd (snd (Send (loopback frame_size) (logged ref_encoder) 7 nine_ints []))) =
     [Call_Open 9,
      Call_OnWord 1 TYPE_INT32, Call_OnWord 2 TYPE_INT32, Call_OnWord 3 TYPE_INT32,
      Call_OnWord 4 TYPE_INT32, Call_OnWord 5 TYPE_INT32, Call_OnWord 6 TYPE_INT32,
      Call_OnWord 7 TYPE_INT32, Call_OnWord 8 TYPE_INT32, Call_OnWord 9 TYPE_INT32,
      Call_SetMsgId 7, Call_Close, Call_GetBuffer]"
  using Send_no_cap [of "loopback frame_size" ref_encoder 7 nine_ints "[]"]
  by (simp add: nine_ints_def kMaxNumArgs_def ref_encoder_def)

text \<open>
  Claim C9. An argument tagged none makes \<^verbatim>\<open>AddMsgElement\<close> return false without a
  call on the encoder, and the loop of \<^verbatim>\<open>Send\<close> does not read that result: the
  encoder ends in the state the list without that argument gives, it is still opened for
  the full count, it receives fewer \<open>on_*\<close> calls than there are arguments, and the
  result of \<^verbatim>\<open>Send\<close> depends on \<^verbatim>\<open>Close\<close>, \<^verbatim>\<open>GetBuffer\<close> and the transport
  alone, so that a send with a skipped argument can succeed.
\<close>

theorem Send_skips_none:
  "AddMsgElement E WireNone e = (False, e) \<and>
   add_elements E (xs @ WireNone # ys) e = add_elements E (xs @ ys) e \<and>
   snd (snd (snd (Send T (logged E) mid (xs @ WireNone # ys) t))) =
     Call_Open (of_nat (Suc (length xs + length ys))) # concat (map element_calls (xs @ ys)) @
     [Call_SetMsgId mid, Call_Close] @
     (if fst (Enc_Close E (encoded E mid (xs @ WireNone # ys))) then [Call_GetBuffer] else []) \<and>
   fst (Send T E mid (xs @ WireNone # ys) t) =
     (if \<not> fst (Enc_Close E (encoded E mid (xs @ WireNone # ys))) then - 1
      else case fst (Enc_GetBuffer E (snd (Enc_Close E (encoded E mid (xs @ WireNone # ys))))) of
             None \<Rightarrow> - 2
           | Some buf \<Rightarrow> fst (Tr_Send T buf t))"
  by (simp add: add_elements_skip Send_log Send_result) (simp add: AddMsgElement_def)

theorem Send_skips_none_witness:
  "Send (loopback frame_size) (logged ref_encoder) 7 [WireInt32 42, WireNone] [] =
     (16, [\<lparr>fr_msg_id = 7, fr_n_args = 2, fr_elements = [El_Word 42 TYPE_INT32]\<rparr>],
      \<lparr>fr_msg_id = 7, fr_n_args = 2, fr_elements = [El_Word 42 TYPE_INT32]\<rparr>,
      [Call_Open 2, Call_OnWord 42 TYPE_INT32, Call_SetMsgId 7, Call_Close, Call_GetBuffer])"
  using Send_skips_none [of ref_encoder "Enc_new ref_encoder" "[WireInt32 42]" "[]" "loopback frame_size" 7 "[]"]
  by (simp add: Send_def Let_def logged_def noted_def AddMsgElement_def ref_encoder_def loopback_def
      frame_size_def add_element_def)

text \<open>
  Claim C2. The claim says that \<^verbatim>\<open>Send\<close> stops at the first encoder call that fails.
  With an encoder whose \<^verbatim>\<open>Open\<close> and \<^verbatim>\<open>OnWord\<close> return false, \<^verbatim>\<open>Send\<close> of one
  int32 argument still makes every later call and returns the byte count of the
  transport: the results of \<^verbatim>\<open>Open\<close> and of \<^verbatim>\<open>AddMsgElement\<close> are not read.
\<close>

theorem Send_goes_on_after_refusal:
  "Send (loopback frame_size) (logged refusing_encoder) 7 [WireInt32 42] [] =
     (8, [\<lparr>fr_msg_id = 7, fr_n_args = 0, fr_elements = []\<rparr>],
      \<lparr>fr_msg_id = 7, fr_n_args = 0, fr_elements = []\<rparr>,
      [Call_Open 1, Call_OnWord 42 TYPE_INT32, Call_SetMsgId 7, Call_Close, Call_GetBuffer]) \<and>
   fst (Enc_Open refusing_encoder 1 (Enc_new refusing_encoder)) = False \<and>
   fst (AddMsgElement refusing_encoder (WireInt32 42) (Enc_new refusing_encoder)) = False"
  by (simp add: Send_def Let_def logged_def noted_def AddMsgElement_def refusing_encoder_def ref_encoder_def
      loopback_def frame_size_def add_element_def)

subsection \<open>What a handler can hold\<close>

text \<open>
  Whatever the transport and the decoder, the arguments the handler holds when the receive
  loop ends are values its callbacks build: none of them is tagged none, unix-fd or
  win-handle, and no string has a zero character inside.
\<close>

theorem pump_receivable:
  "pump fuel T D d RxHandler_init t = Some (d', h, t') \<Longrightarrow> list_all receivable (rx_list h)"
  using pump_apply_calls [of fuel T D d RxHandler_init t d' h t']
    apply_calls_receivable [of RxHandler_init]
  by (simp add: RxHandler_init_def)

theorem pump_receivable_witness:
  "list_all receivable (rx_list \<lparr>rx_list = [WireInt32 42], rx_msg_id = 5\<rparr>)"
  using pump_receivable [OF pump_ping] by simp

end
